theory Spec2Isabelle
  imports Complex_Main
begin

section \<open>Errors and results\<close>

text \<open>
  The exceptions the analysis code can end in. \<open>movie.py\<close> switches every warning into an
  exception (\<^verbatim>\<open>warnings.filterwarnings('error')\<close>), so a numpy floating-point warning
  (division by zero, invalid operation) is the error \<open>RuntimeWarning\<close> here. \<open>Warning\<close> is
  its base class.
\<close>

datatype error =
  AssertionError | ZeroDivisionError | Warning | RuntimeWarning | IndexError | ValueError

definition bindE :: "error + 'a \<Rightarrow> ('a \<Rightarrow> error + 'b) \<Rightarrow> error + 'b" where
  "bindE m f = (case m of Inl e \<Rightarrow> Inl e | Inr v \<Rightarrow> f v)"

section \<open>Floating-point values\<close>

text \<open>
  A numpy \<open>float64\<close> is modelled as NaN or a finite real number: arithmetic on finite
  values is real arithmetic (rounding and overflow are not modelled), NaN propagates through
  every operation, and every comparison with NaN is false. Under this reading an infinity
  arises only where the source writes \<^verbatim>\<open>np.inf\<close> itself (see \<open>are_spots_valid\<close>).
  A division of finite values by zero makes numpy warn, which \<open>movie.py\<close> turns into an
  exception.
\<close>

datatype npfloat = NaN | Fin real

fun np_add :: "npfloat \<Rightarrow> npfloat \<Rightarrow> npfloat" where
  "np_add (Fin x) (Fin y) = Fin (x + y)"
| "np_add _ _ = NaN"

fun np_sub :: "npfloat \<Rightarrow> npfloat \<Rightarrow> npfloat" where
  "np_sub (Fin x) (Fin y) = Fin (x - y)"
| "np_sub _ _ = NaN"

fun np_mul :: "npfloat \<Rightarrow> npfloat \<Rightarrow> npfloat" where
  "np_mul (Fin x) (Fin y) = Fin (x * y)"
| "np_mul _ _ = NaN"

fun np_div :: "npfloat \<Rightarrow> npfloat \<Rightarrow> error + npfloat" where
  "np_div (Fin x) (Fin y) = (if y = 0 then Inl RuntimeWarning else Inr (Fin (x / y)))"
| "np_div _ _ = Inr NaN"

fun np_abs :: "npfloat \<Rightarrow> npfloat" where
  "np_abs (Fin x) = Fin \<bar>x\<bar>"
| "np_abs NaN = NaN"

fun np_cos :: "npfloat \<Rightarrow> npfloat" where
  "np_cos (Fin x) = Fin (cos x)"
| "np_cos NaN = NaN"

fun np_lt :: "npfloat \<Rightarrow> npfloat \<Rightarrow> bool" where
  "np_lt (Fin x) (Fin y) = (x < y)"
| "np_lt _ _ = False"

definition np_gt :: "npfloat \<Rightarrow> npfloat \<Rightarrow> bool" where
  "np_gt a b = np_lt b a"

fun np_eq :: "npfloat \<Rightarrow> npfloat \<Rightarrow> bool" where
  "np_eq (Fin x) (Fin y) = (x = y)"
| "np_eq _ _ = False"

fun np_isnan :: "npfloat \<Rightarrow> bool" where
  "np_isnan NaN = True"
| "np_isnan (Fin x) = False"

fun np_le :: "npfloat \<Rightarrow> npfloat \<Rightarrow> bool" where
  "np_le (Fin x) (Fin y) = (x \<le> y)"
| "np_le _ _ = False"

text \<open>\<^verbatim>\<open>np.sum\<close> of an array; the empty sum is 0.\<close>

definition np_sum :: "npfloat list \<Rightarrow> npfloat" where
  "np_sum xs = foldl np_add (Fin 0) xs"

definition in_unit_interval :: "npfloat \<Rightarrow> bool" where
  "in_unit_interval v = (case v of NaN \<Rightarrow> False | Fin x \<Rightarrow> 0 \<le> x \<and> x \<le> 1)"

text \<open>
  A value that may also be \<^verbatim>\<open>np.inf\<close>: the entries of a spot's \<open>SNR\<close> array are either
  the infinity that \<open>are_spots_valid\<close> writes or a computed quotient.
\<close>

datatype snr_value = Infinite | Measured npfloat

section \<open>Spots\<close>

text \<open>
  The fields of a \<open>Spot\<close> that the analysis stages read and write. Intensities and
  background deviations are arrays with one entry per frame; \<open>sam\<close> is the average portrait
  matrix, a list of rows.
\<close>

record spot =
  intensity :: "npfloat list"
  use_borderbg :: bool
  borderbgstd :: "npfloat list"
  SNR :: "snr_value list"
  framecountSNR :: nat
  meanSNR :: snr_value
  sam :: "npfloat list list"
  M_ex :: npfloat
  M_em :: npfloat
  phase_ex :: npfloat
  phase_em :: npfloat
  LS :: npfloat
  anisotropy :: npfloat
  anisotropy_n :: npfloat
  ET_ruler :: npfloat
  ETmodel_md_fu :: npfloat
  ETmodel_th_fu :: npfloat
  ETmodel_gr :: npfloat
  ETmodel_et :: npfloat
  ETmodel_resi :: npfloat

definition blank_spot :: spot where
  "blank_spot = \<lparr>intensity = [], use_borderbg = False, borderbgstd = [],
     SNR = [], framecountSNR = 0, meanSNR = Measured NaN, sam = [],
     M_ex = Fin 0, M_em = Fin 0, phase_ex = Fin 0, phase_em = Fin 0, LS = Fin 0,
     anisotropy = Fin 0, anisotropy_n = Fin 0, ET_ruler = Fin 0,
     ETmodel_md_fu = Fin 0, ETmodel_th_fu = Fin 0, ETmodel_gr = Fin 0, ETmodel_et = Fin 0,
     ETmodel_resi = Fin 0\<rparr>"

section \<open>ETRulerFFT: \<open>Movie.ETrulerFFT_selective\<close>\<close>

text \<open>
  The resampling of the average portrait and the two Fourier transforms are numerical
  library code; their results enter the model as parameters: \<open>peaks sii\<close> is the column
  \<^verbatim>\<open>self.peaks[:,sii]\<close> of the four windowed observed peak powers, and \<open>MYpeaks_raw si\<close> the
  four windowed peak powers of the no-transfer reference model of spot \<open>si\<close>, before they are
  normalised, or the exception raised on the way to them (the arc cosine of a value outside
  \<open>[-1,1]\<close> makes numpy warn). \<open>ETruler_spot\<close> is the body of the loop over the spots, from
  the first test of the peak sum to the assignment of \<open>ET_ruler\<close>.
\<close>

definition clamp_ruler :: "npfloat \<Rightarrow> npfloat" where
  "clamp_ruler ruler =
     (let r1 = (if np_lt ruler (Fin 0) then Fin 0 else ruler);
          r2 = (if np_gt r1 (Fin 1) then Fin 1 else r1)
      in r2)"

type_synonym peaks4 = "npfloat \<times> npfloat \<times> npfloat \<times> npfloat"

fun peaks_sum :: "peaks4 \<Rightarrow> npfloat" where
  "peaks_sum (p1, p2, p3, p4) = np_sum [p1, p2, p3, p4]"

fun peaks_div :: "peaks4 \<Rightarrow> npfloat \<Rightarrow> error + peaks4" where
  "peaks_div (p1, p2, p3, p4) d =
     bindE (np_div p1 d) (\<lambda>q1. bindE (np_div p2 d) (\<lambda>q2.
     bindE (np_div p3 d) (\<lambda>q3. bindE (np_div p4 d) (\<lambda>q4. Inr (q1, q2, q3, q4)))))"

text \<open>\<^verbatim>\<open>peaks[1] - peaks[3]\<close>: the second peak minus the fourth.\<close>

fun cross_diff :: "peaks4 \<Rightarrow> npfloat" where
  "cross_diff (p1, p2, p3, p4) = np_sub p2 p4"

definition ETruler_spot :: "peaks4 \<Rightarrow> error + peaks4 \<Rightarrow> spot \<Rightarrow> error + spot" where
  "ETruler_spot pk MYmodel s =
     (let s1 = (if np_gt (np_abs (np_sub (peaks_sum pk) (Fin 1))) (Fin (8 / 100))
                then s\<lparr>ET_ruler := NaN\<rparr> else s);
          crossdiff = cross_diff pk
      in bindE MYmodel (\<lambda>MYraw. bindE (peaks_div MYraw (peaks_sum MYraw)) (\<lambda>MYpeaks.
           let s2 = (if np_gt (np_abs (np_sub (peaks_sum MYpeaks) (Fin 1))) (Fin (8 / 100))
                     then s1\<lparr>ET_ruler := NaN\<rparr> else s1);
               MYcrossdiff = cross_diff MYpeaks
           in bindE (np_div crossdiff MYcrossdiff) (\<lambda>q.
                let ruler = np_sub (Fin 1) q
                in Inr (s2\<lparr>ET_ruler := clamp_ruler ruler\<rparr>)))))"

text \<open>The value of the variable \<open>ruler\<close> before it is clamped, for reference in the theorems.\<close>

definition raw_ruler :: "peaks4 \<Rightarrow> error + peaks4 \<Rightarrow> error + npfloat" where
  "raw_ruler pk MYmodel =
     bindE MYmodel (\<lambda>MYraw. bindE (peaks_div MYraw (peaks_sum MYraw)) (\<lambda>MYpeaks.
       bindE (np_div (cross_diff pk) (cross_diff MYpeaks)) (\<lambda>q. Inr (np_sub (Fin 1) q))))"

text \<open>
  The loop \<^verbatim>\<open>for sii,si in enumerate(myspots)\<close>; \<open>sii\<close> counts the spots done so far.
  An index outside \<open>validspots\<close> raises IndexError.
\<close>

fun ETruler_loop ::
  "(nat \<Rightarrow> peaks4) \<Rightarrow> (nat \<Rightarrow> error + peaks4) \<Rightarrow> nat \<Rightarrow> nat list \<Rightarrow> spot list
   \<Rightarrow> error + spot list" where
  "ETruler_loop peaks MYpeaks_raw sii [] vs = Inr vs"
| "ETruler_loop peaks MYpeaks_raw sii (si # rest) vs =
     (if si \<ge> length vs then Inl IndexError
      else bindE (ETruler_spot (peaks sii) (MYpeaks_raw si) (vs ! si)) (\<lambda>s'.
             ETruler_loop peaks MYpeaks_raw (Suc sii) rest (vs[si := s'])))"

definition ETrulerFFT_selective ::
  "(nat \<Rightarrow> peaks4) \<Rightarrow> (nat \<Rightarrow> error + peaks4) \<Rightarrow> nat list \<Rightarrow> spot list
   \<Rightarrow> error + spot list" where
  "ETrulerFFT_selective peaks MYpeaks_raw myspots validspots =
     ETruler_loop peaks MYpeaks_raw 0 myspots validspots"

section \<open>WorkDistributor: \<open>Movie.run_mp\<close>\<close>

text \<open>
  Python compares the boolean flags as the integers 0 and 1, so \<^verbatim>\<open>a >= b\<close> is false only
  for \<^verbatim>\<open>a = False, b = True\<close>; the chain \<^verbatim>\<open>fits >= mods >= ETruler >= ETmodel\<close> is the
  conjunction of the three comparisons.
\<close>

definition py_ge_bool :: "bool \<Rightarrow> bool \<Rightarrow> bool" where
  "py_ge_bool a b = (of_bool a \<ge> (of_bool b :: nat))"

definition stage_order :: "bool \<Rightarrow> bool \<Rightarrow> bool \<Rightarrow> bool \<Rightarrow> bool" where
  "stage_order fits mods ETruler ETmodel =
     (py_ge_bool fits mods \<and> py_ge_bool mods ETruler \<and> py_ge_bool ETruler ETmodel)"

text \<open>
  \<^verbatim>\<open>np.array_split(ary, N)\<close>: \<open>N \<le> 0\<close> raises ValueError; otherwise the first
  \<open>len mod N\<close> sections get \<open>len div N + 1\<close> items and the others \<open>len div N\<close>.
\<close>

fun split_by_sizes :: "'a list \<Rightarrow> nat list \<Rightarrow> 'a list list" where
  "split_by_sizes xs [] = []"
| "split_by_sizes xs (n # ns) = take n xs # split_by_sizes (drop n xs) ns"

definition array_split :: "'a list \<Rightarrow> int \<Rightarrow> error + 'a list list" where
  "array_split ary Nsections =
     (if Nsections \<le> 0 then Inl ValueError
      else let n = nat Nsections;
               Neach = length ary div n;
               extras = length ary mod n
           in Inr (split_by_sizes ary (replicate extras (Neach + 1) @ replicate (n - extras) Neach)))"

text \<open>
  A started worker process: the arguments \<open>run_mp\<close> hands to \<open>mp_worker\<close>. The outcome of
  \<open>run_mp\<close> records the processes started so far and the exception raised, if any. The model
  ends where the start loop ends; draining the result queue is between processes and is not
  part of it.
\<close>

record job =
  thesespots :: "nat list"
  whichproc :: nat
  job_fits :: bool
  job_mods :: bool
  job_ETruler :: bool
  job_ETmodel :: bool

record mp_outcome =
  started :: "job list"
  raised :: "error option"

definition run_mp :: "nat \<Rightarrow> int \<Rightarrow> bool \<Rightarrow> bool \<Rightarrow> bool \<Rightarrow> bool \<Rightarrow> mp_outcome" where
  "run_mp n_validspots Nprocs fits mods ETruler ETmodel =
     (if \<not> stage_order fits mods ETruler ETmodel
      then \<lparr>started = [], raised = Some AssertionError\<rparr>
      else case array_split [0..<n_validspots] Nprocs of
             Inl e \<Rightarrow> \<lparr>started = [], raised = Some e\<rparr>
           | Inr myspots \<Rightarrow>
               \<lparr>started = map (\<lambda>i. \<lparr>thesespots = myspots ! i, whichproc = i, job_fits = fits,
                                      job_mods = mods, job_ETruler = ETruler, job_ETmodel = ETmodel\<rparr>)
                                [0..<nat Nprocs],
                raised = None\<rparr>)"

section \<open>ETModelFitter: \<open>Movie.ETmodel_selective\<close>\<close>











section \<open>ModulationAnalyzer: \<open>Movie.find_modulation_depths_and_phases_selective\<close>\<close>

text \<open>
  A loop \<^verbatim>\<open>for sii,si in enumerate(myspots)\<close> whose body reads and writes \<open>validspots[si]\<close>;
  \<open>sii\<close> is the position in \<open>myspots\<close>.
\<close>

fun for_enumerate ::
  "(nat \<Rightarrow> spot \<Rightarrow> error + spot) \<Rightarrow> nat \<Rightarrow> nat list \<Rightarrow> spot list \<Rightarrow> error + spot list" where
  "for_enumerate body sii [] vs = Inr vs"
| "for_enumerate body sii (si # rest) vs =
     (if si \<ge> length vs then Inl IndexError
      else bindE (body sii (vs ! si)) (\<lambda>s'. for_enumerate body (Suc sii) rest (vs[si := s'])))"

text \<open>
  The line shift: the difference of the two phases, then the two masked updates
  \<^verbatim>\<open>LS[LS > pi/2] -= pi\<close> and \<^verbatim>\<open>LS[LS < -pi/2] += pi\<close>, one after the other.
\<close>

definition LS_of :: "npfloat \<Rightarrow> npfloat \<Rightarrow> npfloat" where
  "LS_of ph_ex ph_em =
     (let LS0 = np_sub ph_ex ph_em;
          LS1 = (if np_gt LS0 (Fin (pi / 2)) then np_sub LS0 (Fin pi) else LS0);
          LS2 = (if np_lt LS1 (Fin (- pi / 2)) then np_add LS1 (Fin pi) else LS1)
      in LS2)"

text \<open>
  A result of the cosine fitter for one column: phase, \<open>I0\<close> and modulation depth. The fitter
  (\<open>fitting.py\<close>) is not part of the sources at hand; each of its four batched calls enters as
  a parameter: its results by column \<open>sii\<close>, or the exception it raised.
\<close>

type_synonym cosfit = "npfloat \<times> npfloat \<times> npfloat"

fun assign_fits :: "cosfit \<Rightarrow> cosfit \<Rightarrow> spot \<Rightarrow> spot" where
  "assign_fits (ph_ex, I_ex, Mex) (ph_em, I_em, Mem) s =
     s\<lparr>phase_ex := ph_ex, M_ex := Mex, phase_em := ph_em, M_em := Mem,
       LS := LS_of ph_ex ph_em\<rparr>"

definition mycos :: "npfloat \<Rightarrow> npfloat \<Rightarrow> npfloat \<Rightarrow> npfloat \<Rightarrow> npfloat" where
  "mycos a ph I M = np_mul I (np_add (Fin 1) (np_mul M (np_cos (np_mul (Fin 2) (np_sub a ph)))))"

text \<open>
  Division of two Python floats: a zero divisor raises ZeroDivisionError, whatever the
  dividend; NaN propagates.
\<close>

fun py_truediv :: "npfloat \<Rightarrow> npfloat \<Rightarrow> error + npfloat" where
  "py_truediv NaN (Fin y) = (if y = 0 then Inl ZeroDivisionError else Inr NaN)"
| "py_truediv (Fin x) (Fin y) = (if y = 0 then Inl ZeroDivisionError else Inr (Fin (x / y)))"
| "py_truediv _ NaN = Inr NaN"

text \<open>
  The anisotropy from the vertical fit \<open>(fp, fi, fm)\<close>, with the parallel configuration at
  angle \<open>a\<close>: the spot's own \<open>phase_ex\<close> for \<open>anisotropy\<close>, the angle 0 for \<open>anisotropy_n\<close>.
\<close>

fun anisotropy_at :: "npfloat \<Rightarrow> cosfit \<Rightarrow> error + npfloat" where
  "anisotropy_at a (fp, fi, fm) =
     (let Ipara = mycos a fp fi fm;
          Iperp = mycos (np_sub a (Fin (pi / 2))) fp fi fm
      in if \<not> np_eq (np_add Ipara (np_mul (Fin 2) Iperp)) (Fin 0)
         then py_truediv (np_sub Ipara Iperp) (np_add Ipara (np_mul (Fin 2) Iperp))
         else Inr NaN)"

definition ex_par_rad :: npfloat where
  "ex_par_rad = Fin (0 * pi / 180)"

text \<open>
  \<^verbatim>\<open>try: ... except Warning: ... raise Warning\<close> around the two vertical fits: a warning of
  any class leaves as a plain \<open>Warning\<close>, other exceptions pass.
\<close>

definition reraise_warning :: "error + 'a \<Rightarrow> error + 'a" where
  "reraise_warning m =
     (case m of
        Inl e \<Rightarrow> if e = Warning \<or> e = RuntimeWarning then Inl Warning else Inl e
      | Inr v \<Rightarrow> Inr v)"

text \<open>
  The function: the first loop reads every \<open>validspots[si]\<close> (an index out of range ends the
  call there), then come the two marginal fits, the assignment loop, the vertical fit and the
  loop for \<open>anisotropy\<close>, the vertical fit and the loop for \<open>anisotropy_n\<close>, and at the end
  \<^verbatim>\<open>si = myspots[0]\<close>, which raises for an empty \<open>myspots\<close>. The average portraits, the
  projections and the contrast images are left out.
\<close>

definition find_modulation_depths_and_phases_selective ::
  "(error + (nat \<Rightarrow> cosfit)) \<Rightarrow> (error + (nat \<Rightarrow> cosfit)) \<Rightarrow> (error + (nat \<Rightarrow> cosfit))
   \<Rightarrow> (error + (nat \<Rightarrow> cosfit)) \<Rightarrow> nat list \<Rightarrow> spot list \<Rightarrow> error + spot list" where
  "find_modulation_depths_and_phases_selective fit_ex fit_em fit_v fit_vn myspots validspots =
     (if \<exists>si \<in> set myspots. si \<ge> length validspots then Inl IndexError
      else bindE fit_ex (\<lambda>ex. bindE fit_em (\<lambda>em.
        bindE (for_enumerate (\<lambda>sii s. Inr (assign_fits (ex sii) (em sii) s)) 0 myspots validspots)
          (\<lambda>vs1. bindE (reraise_warning fit_v) (\<lambda>v.
        bindE (for_enumerate
                 (\<lambda>sii s. bindE (anisotropy_at (phase_ex s) (v sii))
                             (\<lambda>r. Inr (s\<lparr>anisotropy := r\<rparr>))) 0 myspots vs1)
          (\<lambda>vs2. bindE (reraise_warning fit_vn) (\<lambda>vn.
        bindE (for_enumerate
                 (\<lambda>sii s. bindE (anisotropy_at ex_par_rad (vn sii))
                             (\<lambda>r. Inr (s\<lparr>anisotropy_n := r\<rparr>))) 0 myspots vs2)
          (\<lambda>vs3. if myspots = [] then Inl IndexError else Inr vs3))))))))"

text \<open>The quotient the anisotropy is meant to be, on numbers; NaN if an intensity is NaN.\<close>

fun anisotropy_formula :: "npfloat \<Rightarrow> npfloat \<Rightarrow> npfloat" where
  "anisotropy_formula (Fin Ipara) (Fin Iperp) =
     (if Ipara + 2 * Iperp = 0 then NaN else Fin ((Ipara - Iperp) / (Ipara + 2 * Iperp)))"
| "anisotropy_formula _ _ = NaN"

text \<open>The interval \<open>(-\<pi>/2, \<pi>/2]\<close>, open below, and the closed interval \<open>[-\<pi>/2, \<pi>/2]\<close>.\<close>

definition in_half_open_LS_range :: "npfloat \<Rightarrow> bool" where
  "in_half_open_LS_range v = (case v of NaN \<Rightarrow> False | Fin x \<Rightarrow> - pi / 2 < x \<and> x \<le> pi / 2)"

definition in_closed_LS_range :: "npfloat \<Rightarrow> bool" where
  "in_closed_LS_range v = (case v of NaN \<Rightarrow> False | Fin x \<Rightarrow> - pi / 2 \<le> x \<and> x \<le> pi / 2)"

section \<open>Spot validation: \<open>Movie.are_spots_valid\<close>\<close>

text \<open>
  Elementwise division of two one-dimensional arrays with numpy's broadcasting: equal
  lengths, or one of them of length one; other shapes raise ValueError. One failing element
  fails the whole operation.
\<close>

fun sequenceE :: "(error + 'a) list \<Rightarrow> error + 'a list" where
  "sequenceE [] = Inr []"
| "sequenceE (m # ms) = bindE m (\<lambda>v. bindE (sequenceE ms) (\<lambda>vs. Inr (v # vs)))"

definition np_div_arrays :: "npfloat list \<Rightarrow> npfloat list \<Rightarrow> error + npfloat list" where
  "np_div_arrays xs ys =
     (if length xs = length ys then sequenceE (map2 np_div xs ys)
      else if length ys = 1 then sequenceE (map (\<lambda>x. np_div x (hd ys)) xs)
      else if length xs = 1 then sequenceE (map (\<lambda>y. np_div (hd xs) y) ys)
      else Inl ValueError)"

text \<open>\<^verbatim>\<open>s.SNR > SNR\<close> for one entry: infinity is above every number, and nothing is above NaN.\<close>

fun snr_gt :: "snr_value \<Rightarrow> npfloat \<Rightarrow> bool" where
  "snr_gt Infinite t = (\<not> np_isnan t)"
| "snr_gt (Measured v) t = np_gt v t"

fun snr_add :: "snr_value \<Rightarrow> snr_value \<Rightarrow> snr_value" where
  "snr_add (Measured a) (Measured b) = Measured (np_add a b)"
| "snr_add Infinite (Measured b) = (if np_isnan b then Measured NaN else Infinite)"
| "snr_add (Measured a) Infinite = (if np_isnan a then Measured NaN else Infinite)"
| "snr_add Infinite Infinite = Infinite"

text \<open>\<^verbatim>\<open>np.mean\<close>: the mean of an empty array makes numpy warn, which is an exception here.\<close>

definition snr_mean :: "snr_value list \<Rightarrow> error + snr_value" where
  "snr_mean xs =
     (if xs = [] then Inl RuntimeWarning
      else case foldl snr_add (Measured (Fin 0)) xs of
             Infinite \<Rightarrow> Inr Infinite
           | Measured t \<Rightarrow> Inr (Measured (np_mul t (Fin (1 / real (length xs))))))"

text \<open>
  The signal-to-noise array of one spot, given the value of \<open>bgstd\<close> at that point of the
  loop: infinity in every frame if \<open>bgstd\<close> is \<open>None\<close> or has a zero entry, otherwise
  \<open>|intensity / bgstd|\<close>.
\<close>

definition has_zero :: "npfloat list \<Rightarrow> bool" where
  "has_zero b = (\<exists>x \<in> set b. np_eq x (Fin 0))"

definition spot_SNR :: "npfloat list option \<Rightarrow> spot \<Rightarrow> error + snr_value list" where
  "spot_SNR bgstd s =
     (case bgstd of
        None \<Rightarrow> Inr (replicate (length (intensity s)) Infinite)
      | Some b \<Rightarrow>
          if has_zero b then Inr (replicate (length (intensity s)) Infinite)
          else bindE (np_div_arrays (intensity s) b)
                 (\<lambda>q. Inr (map (\<lambda>x. Measured (np_abs x)) q)))"

text \<open>
  The loop over \<^verbatim>\<open>enumerate(self.spots)\<close>. The variable \<open>bgstd\<close> is set before the loop and
  overwritten by a spot with \<open>use_borderbg\<close>; it is not reset for the next spot. The result is
  the updated spots, \<open>validspots\<close> and \<open>validspotindices\<close>. The writes into the images are left
  out.
\<close>

fun are_spots_valid_loop ::
  "npfloat \<Rightarrow> npfloat \<Rightarrow> npfloat list option \<Rightarrow> nat \<Rightarrow> spot list
   \<Rightarrow> error + (spot list \<times> spot list \<times> nat list)" where
  "are_spots_valid_loop SNRmin validframesratio bgstd si [] = Inr ([], [], [])"
| "are_spots_valid_loop SNRmin validframesratio bgstd si (s # rest) =
     (let bgstd' = (if use_borderbg s then Some (borderbgstd s) else bgstd)
      in bindE (spot_SNR bgstd' s) (\<lambda>snr.
           let fc = length (filter (\<lambda>v. snr_gt v SNRmin) snr);
               valid = np_le (np_mul validframesratio (Fin (real (length snr)))) (Fin (real fc))
           in bindE (snr_mean snr) (\<lambda>m.
                let s' = s\<lparr>SNR := snr, framecountSNR := fc, meanSNR := m\<rparr>
                in bindE (are_spots_valid_loop SNRmin validframesratio bgstd' (Suc si) rest)
                     (\<lambda>(ss, vs, idx).
                        Inr (s' # ss, if valid then s' # vs else vs,
                             if valid then si # idx else idx)))))"





section \<open>PortraitIndexer: \<open>Movie.find_portraits\<close> and \<open>Movie.startstop\<close>\<close>

text \<open>
  Motor angles are real numbers. \<^verbatim>\<open>np.round(x, decimals=2)\<close> scales by 100, rounds to the
  nearest integer, halves to the even neighbour, and scales back.
\<close>

definition rint :: "real \<Rightarrow> int" where
  "rint x =
     (let f = \<lfloor>x\<rfloor>; d = x - of_int f
      in if d < 1 / 2 then f else if 1 / 2 < d then f + 1 else if even f then f else f + 1)"

definition np_round2 :: "real \<Rightarrow> real" where
  "np_round2 x = of_int (rint (x * 100)) / 100"

text \<open>\<^verbatim>\<open>np.unique(a).size\<close>: the number of distinct entries.\<close>

definition unique_size :: "real list \<Rightarrow> nat" where
  "unique_size a = length (remdups a)"

text \<open>
  \<open>find_portraits\<close>: the frame count is divided by the frames per portrait with Python 2's
  integer division (a zero divisor raises), the remainder is asserted to be zero, the loop
  collects the start offsets until one exceeds the frame count, and the number of portraits
  is asserted to be positive. The result is \<open>Nportraits\<close> and \<open>portrait_indices\<close>.
\<close>

definition find_portraits :: "real list \<Rightarrow> real list \<Rightarrow> int \<Rightarrow> error + (int \<times> int list)" where
  "find_portraits exangles emangles frameoffset =
     (let exangles_rounded = map np_round2 exangles;
          emangles_rounded = map np_round2 emangles;
          number_of_verticals = unique_size exangles_rounded;
          number_of_lines = unique_size emangles_rounded;
          Nframes = length exangles;
          fpp = number_of_verticals * number_of_lines
      in if fpp = 0 then Inl ZeroDivisionError
         else let Nportraits = Nframes div fpp
              in if Nframes mod fpp \<noteq> 0 then Inl AssertionError
                 else let portrait_indices =
                            takeWhile (\<lambda>ind. \<not> ind > int Nframes)
                              (map (\<lambda>p. int p * int fpp + frameoffset) [0..<Nportraits + 1]);
                          Nportraits' = int (length portrait_indices) - 1
                      in if \<not> Nportraits' > 0 then Inl AssertionError
                         else Inr (Nportraits', portrait_indices))"

text \<open>
  \<open>startstop\<close> finds the portraits from the runs of the rounded emission angle alone:
  \<^verbatim>\<open>np.diff\<close>, the first difference forced to 1, every nonzero difference set to 1, a final
  1 appended, and the positions of the nonzero entries as the edges. Writing \<^verbatim>\<open>d[0]\<close> of an
  empty array and \<^verbatim>\<open>indices[0,0]\<close> of an empty table raise IndexError; the reads of
  \<open>edges\<close> stay in range, the number of portraits being the number of edge intervals divided
  by the number of lines. The result is the number of portraits and the table of first and
  last frame of each.
\<close>

definition np_diff :: "real list \<Rightarrow> real list" where
  "np_diff a = map (\<lambda>(x, y). y - x) (zip a (tl a))"

definition nonzero :: "real list \<Rightarrow> nat list" where
  "nonzero d = filter (\<lambda>i. d ! i \<noteq> 0) [0..<length d]"

definition startstop :: "real list \<Rightarrow> error + (nat \<times> (nat \<times> nat) list)" where
  "startstop emission_angles =
     (let emangles_rounded = map np_round2 emission_angles;
          number_of_lines = unique_size emangles_rounded;
          d = np_diff emangles_rounded
      in if d = [] then Inl IndexError
         else let d1 = d[0 := 1];
                  d2 = map (\<lambda>x. if x \<noteq> 0 then 1 else x) d1;
                  d3 = d2 @ [1];
                  edges = nonzero d3;
                  Nportraits = length (np_diff (map real edges)) div number_of_lines;
                  indices = map (\<lambda>i. (edges ! (i * number_of_lines) + 1,
                                       edges ! ((i + 1) * number_of_lines))) [0..<Nportraits]
              in if indices = [] then Inl IndexError
                 else Inr (length (indices[0 := (0, snd (indices ! 0))]),
                           indices[0 := (0, snd (indices ! 0))]))"

section \<open>AngleGrid: the angle grids in \<open>Movie.__init__\<close>\<close>

text \<open>
  \<^verbatim>\<open>np.finfo(np.float).eps\<close>, \<^verbatim>\<open>np.unique\<close> (sorted, without repetitions) and
  \<^verbatim>\<open>np.linspace(0, np.pi, n, endpoint=False)\<close>, which is \<open>i\<close> times the step \<open>\<pi>/n\<close> for \<open>i < n\<close>.
\<close>

definition float_eps :: real where
  "float_eps = 1 / 2 ^ 52"

definition np_unique :: "real list \<Rightarrow> real list" where
  "np_unique a = sort (remdups a)"

definition linspace_pi :: "nat \<Rightarrow> real list" where
  "linspace_pi n = map (\<lambda>i. real i * (pi / real n)) [0..<n]"

text \<open>\<^verbatim>\<open>phase_offset_in_deg * np.pi/180.0\<close>; the offset may be NaN.\<close>

fun phase_offset_in_rad :: "npfloat \<Rightarrow> npfloat" where
  "phase_offset_in_rad NaN = NaN"
| "phase_offset_in_rad (Fin d) = Fin (d * pi / 180)"

text \<open>
  An entry within ten epsilons of \<open>\<pi>\<close> is set to \<open>\<pi>\<close>; \<^verbatim>\<open>np.mod(x, np.pi)\<close> has the sign of the
  divisor.
\<close>

definition snap_to_pi :: "npfloat \<Rightarrow> npfloat" where
  "snap_to_pi g = (if np_lt (np_abs (np_sub g (Fin pi))) (Fin (10 * float_eps)) then Fin pi else g)"

fun np_mod_pi :: "npfloat \<Rightarrow> npfloat" where
  "np_mod_pi NaN = NaN"
| "np_mod_pi (Fin x) = Fin (x - pi * of_int \<lfloor>x / pi\<rfloor>)"

definition excitation_angles_grid :: "nat \<Rightarrow> npfloat \<Rightarrow> npfloat list" where
  "excitation_angles_grid ExAngleGridSize phase_offset_in_deg =
     (let grid = map Fin (linspace_pi ExAngleGridSize);
          shifted = map (\<lambda>g. np_add g (phase_offset_in_rad phase_offset_in_deg)) grid;
          fixed = map snap_to_pi shifted
      in map np_mod_pi fixed)"

definition emission_angles_grid :: "nat \<Rightarrow> npfloat list" where
  "emission_angles_grid EmAngleGridSize = map Fin (linspace_pi EmAngleGridSize)"

text \<open>\<^verbatim>\<open>np.any(np.abs(a - grid) < 10*eps)\<close>.\<close>

definition matches_grid :: "real \<Rightarrow> npfloat list \<Rightarrow> bool" where
  "matches_grid a grid = list_ex (\<lambda>g. np_lt (np_abs (np_sub (Fin a) g)) (Fin (10 * float_eps))) grid"

text \<open>
  The part of the constructor that fixes and tests the grids, from the per-frame angles of
  the motor log and its phase offset in degrees.
\<close>

definition Movie_init_grids ::
  "real list \<Rightarrow> real list \<Rightarrow> npfloat \<Rightarrow> error + (npfloat list \<times> npfloat list)" where
  "Movie_init_grids exangles emangles phase_offset_in_deg =
     (let unique_exangles = np_unique exangles;
          unique_emangles = np_unique emangles;
          gex = excitation_angles_grid (length unique_exangles) phase_offset_in_deg;
          gem = emission_angles_grid (length unique_emangles)
      in if \<not> list_all (\<lambda>uexa. matches_grid uexa gex) unique_exangles then Inl AssertionError
         else if \<not> list_all (\<lambda>uema. matches_grid uema gem) unique_emangles then Inl AssertionError
         else Inr (gex, gem))"


section \<open>Theorems\<close>

lemma length_split_by_sizes: "length (split_by_sizes xs ns) = length ns"
  by (induction ns arbitrary: xs) auto

lemma run_mp_starts_all:
  "stage_order fits mods ETruler ETmodel \<Longrightarrow> 0 < Nprocs \<Longrightarrow>
   length (started (run_mp n Nprocs fits mods ETruler ETmodel)) = nat Nprocs
   \<and> raised (run_mp n Nprocs fits mods ETruler ETmodel) = None"
  by (simp add: run_mp_def array_split_def Let_def)

text \<open>
  C9. Whenever the flags violate the order \<open>fits \<ge> mods \<ge> ETruler \<ge> ETmodel\<close> (for instance
  \<open>mods\<close> set and \<open>fits\<close> not), \<open>run_mp\<close> ends in an assertion error and has started no
  worker process.
\<close>

theorem run_mp_order_violation:
  "\<not> (of_bool fits \<ge> (of_bool mods :: nat) \<and> of_bool mods \<ge> (of_bool ETruler :: nat)
       \<and> of_bool ETruler \<ge> (of_bool ETmodel :: nat))
   \<Longrightarrow> run_mp n Nprocs fits mods ETruler ETmodel = \<lparr>started = [], raised = Some AssertionError\<rparr>"
  by (simp add: run_mp_def stage_order_def py_ge_bool_def)

theorem run_mp_order_violation_witness:
  "\<not> (of_bool False \<ge> (of_bool True :: nat) \<and> of_bool True \<ge> (of_bool True :: nat)
       \<and> of_bool True \<ge> (of_bool False :: nat))
   \<and> run_mp 5 2 False True True False = \<lparr>started = [], raised = Some AssertionError\<rparr>"
  using run_mp_order_violation
    [where fits = False and mods = True and ETruler = True and ETmodel = False
       and n = 5 and Nprocs = 2]
  by simp

lemma ETruler_spot_raw:
  "ETruler_spot pk MYmodel s = bindE (raw_ruler pk MYmodel) (\<lambda>r. Inr (s\<lparr>ET_ruler := clamp_ruler r\<rparr>))"
  by (auto simp: ETruler_spot_def raw_ruler_def bindE_def Let_def split: sum.splits)

lemma clamp_ruler_cases:
  "clamp_ruler r = (case r of NaN \<Rightarrow> NaN | Fin x \<Rightarrow> Fin (if x < 0 then 0 else if 1 < x then 1 else x))"
  by (auto simp: clamp_ruler_def np_gt_def Let_def split: npfloat.splits)

lemma clamp_ruler_range: "np_isnan r \<or> in_unit_interval (clamp_ruler r)"
  by (cases r) (auto simp: clamp_ruler_def np_gt_def in_unit_interval_def Let_def)

lemma ETruler_loop_inv:
  assumes body: "\<And>sii si s s'. ETruler_spot (peaks sii) (MY si) s = Inr s' \<Longrightarrow> Q si s'"
  shows "ETruler_loop peaks MY sii myspots vs = Inr vs' \<Longrightarrow>
   length vs' = length vs \<and> (\<forall>i \<in> set myspots. i < length vs) \<and>
   (\<forall>i < length vs. (i \<in> set myspots \<or> Q i (vs ! i)) \<longrightarrow> Q i (vs' ! i))"
proof (induction myspots arbitrary: sii vs)
  case Nil
  then show ?case by simp
next
  case (Cons si rest)
  from Cons.prems have lt: "si < length vs" by (auto split: if_splits)
  from Cons.prems lt obtain s' where
    b: "ETruler_spot (peaks sii) (MY si) (vs ! si) = Inr s'" and
    rest: "ETruler_loop peaks MY (Suc sii) rest (vs[si := s']) = Inr vs'"
    by (auto simp: bindE_def split: sum.splits)
  have good: "Q si s'" using body [OF b] .
  note IH = Cons.IH [OF rest]
  show ?case
  proof (intro conjI ballI allI impI)
    show "length vs' = length vs" using IH by simp
  next
    fix i assume "i \<in> set (si # rest)"
    then show "i < length vs" using IH lt by auto
  next
    fix i assume i: "i < length vs" and h: "i \<in> set (si # rest) \<or> Q i (vs ! i)"
    show "Q i (vs' ! i)"
    proof (cases "i = si")
      case True
      then show ?thesis using IH good lt by (auto simp: nth_list_update)
    next
      case False
      then show ?thesis using IH h i by (auto simp: nth_list_update)
    qed
  qed
qed

text \<open>
  C1 (amended). When \<open>ETrulerFFT_selective\<close> returns, every spot it processed holds the
  clamped raw ruler \<open>1 - crossdiff/MYcrossdiff\<close>: 0 for a raw value below 0, 1 for a raw value
  above 1, the raw value itself in between, so a value in \<open>[0,1]\<close> whenever the raw ruler
  is a number. A raw ruler that is NaN passes both comparisons and is stored as NaN.
\<close>

theorem ETruler_stored_value:
  assumes run: "ETrulerFFT_selective peaks MYpeaks_raw myspots validspots = Inr validspots'"
    and si: "si \<in> set myspots"
  shows "\<exists>sii r. raw_ruler (peaks sii) (MYpeaks_raw si) = Inr r \<and>
           ET_ruler (validspots' ! si) =
             (case r of NaN \<Rightarrow> NaN | Fin x \<Rightarrow> Fin (if x < 0 then 0 else if 1 < x then 1 else x)) \<and>
           (np_isnan r \<or> in_unit_interval (ET_ruler (validspots' ! si)))"
proof -
  let ?Q = "\<lambda>i s. \<exists>sii r. raw_ruler (peaks sii) (MYpeaks_raw i) = Inr r \<and> ET_ruler s = clamp_ruler r"
  have body: "?Q i s'" if "ETruler_spot (peaks sii) (MYpeaks_raw i) s = Inr s'" for sii i s s'
    using that by (fastforce simp: ETruler_spot_raw bindE_def split: sum.splits)
  from run have loop: "ETruler_loop peaks MYpeaks_raw 0 myspots validspots = Inr validspots'"
    by (simp add: ETrulerFFT_selective_def)
  have inv: "length validspots' = length validspots \<and> (\<forall>i \<in> set myspots. i < length validspots) \<and>
   (\<forall>i < length validspots. (i \<in> set myspots \<or> ?Q i (validspots ! i)) \<longrightarrow> ?Q i (validspots' ! i))"
    by (rule ETruler_loop_inv [where Q = ?Q, OF body loop])
  with si have "?Q si (validspots' ! si)" by blast
  then obtain sii r where r: "raw_ruler (peaks sii) (MYpeaks_raw si) = Inr r"
    and e: "ET_ruler (validspots' ! si) = clamp_ruler r" by blast
  show ?thesis
    using r e clamp_ruler_range [of r] by (auto simp: clamp_ruler_cases)
qed

theorem ETruler_stored_value_witness:
  "ETrulerFFT_selective (\<lambda>_. (Fin (4/10), Fin (3/10), Fin (2/10), Fin (1/10)))
      (\<lambda>_. Inr (Fin 1, Fin 3, Fin 1, Fin 1)) [0] [blank_spot]
     = Inr [blank_spot\<lparr>ET_ruler := Fin (2/5)\<rparr>]
   \<and> (0::nat) \<in> set [0]
   \<and> in_unit_interval (ET_ruler ([blank_spot\<lparr>ET_ruler := Fin (2/5)\<rparr>] ! 0))"
proof -
  have run: "ETrulerFFT_selective (\<lambda>_. (Fin (4/10), Fin (3/10), Fin (2/10), Fin (1/10)))
      (\<lambda>_. Inr (Fin 1, Fin 3, Fin 1, Fin 1)) [0] [blank_spot]
     = Inr [blank_spot\<lparr>ET_ruler := Fin (2/5)\<rparr>]"
    by (simp add: ETrulerFFT_selective_def ETruler_spot_def bindE_def np_sum_def np_gt_def
        clamp_ruler_def Let_def)
  have mem: "(0::nat) \<in> set [0]" by simp
  from ETruler_stored_value [OF run mem] show ?thesis
    using run by (auto simp: in_unit_interval_def)
qed

text \<open>
  C1 as stated fails for a spot whose modulation depth is undefined: the reference peaks are
  NaN, so is the raw ruler, and the value stored is NaN, not a number in \<open>[0,1]\<close>.
\<close>

theorem ETruler_nan_counterexample:
  "ETrulerFFT_selective (\<lambda>_. (Fin (4/10), Fin (3/10), Fin (2/10), Fin (1/10)))
      (\<lambda>_. Inr (NaN, NaN, NaN, NaN)) [0] [blank_spot\<lparr>M_ex := NaN\<rparr>]
     = Inr [blank_spot\<lparr>M_ex := NaN, ET_ruler := NaN\<rparr>]
   \<and> \<not> in_unit_interval (ET_ruler ([blank_spot\<lparr>M_ex := NaN, ET_ruler := NaN\<rparr>] ! 0))"
  by (simp add: ETrulerFFT_selective_def ETruler_spot_def bindE_def np_sum_def np_gt_def
        clamp_ruler_def Let_def in_unit_interval_def)

text \<open>
  C2. A spot whose observed peak powers sum to 0.9 is flagged (\<open>ET_ruler\<close> set to NaN), but the
  loop body goes on and assigns the clamped ruler over it: the spot ends with \<open>ET_ruler = 1\<close>.
\<close>

theorem ETruler_flagged_sum_overwritten:
  "np_gt (np_abs (np_sub (peaks_sum (Fin (5/10), Fin 0, Fin (1/10), Fin (3/10))) (Fin 1))) (Fin (8/100))
   \<and> ETrulerFFT_selective (\<lambda>_. (Fin (5/10), Fin 0, Fin (1/10), Fin (3/10)))
      (\<lambda>_. Inr (Fin 1, Fin 2, Fin 1, Fin 1)) [0] [blank_spot]
     = Inr [blank_spot\<lparr>ET_ruler := Fin 1\<rparr>]"
  by (simp add: ETrulerFFT_selective_def ETruler_spot_def bindE_def np_sum_def np_gt_def
        clamp_ruler_def Let_def)














lemma for_enumerate_step:
  assumes "for_enumerate body k (si # rest) vs = Inr vs'"
  obtains s' where "si < length vs" and "body k (vs ! si) = Inr s'"
    and "for_enumerate body (Suc k) rest (vs[si := s']) = Inr vs'"
  using assms by (auto simp: bindE_def split: if_splits sum.splits)

lemma for_enumerate_keeps:
  assumes pres: "\<And>sii s s'. body sii s = Inr s' \<Longrightarrow> f s' = f s"
  shows "for_enumerate body k myspots vs = Inr vs' \<Longrightarrow>
         length vs' = length vs \<and> (\<forall>i < length vs. f (vs' ! i) = f (vs ! i))"
proof (induction myspots arbitrary: k vs)
  case Nil
  then show ?case by simp
next
  case (Cons si rest)
  from Cons.prems obtain s' where lt: "si < length vs" and b: "body k (vs ! si) = Inr s'"
    and r: "for_enumerate body (Suc k) rest (vs[si := s']) = Inr vs'"
    by (rule for_enumerate_step)
  from Cons.IH [OF r] pres [OF b] lt show ?case
    by (auto simp: nth_list_update split: if_splits)
qed

lemma for_enumerate_untouched:
  "for_enumerate body k myspots vs = Inr vs' \<Longrightarrow> i \<notin> set myspots \<Longrightarrow> vs' ! i = vs ! i"
proof (induction myspots arbitrary: k vs)
  case Nil
  then show ?case by simp
next
  case (Cons si rest)
  from Cons.prems(1) obtain s' where lt: "si < length vs" and b: "body k (vs ! si) = Inr s'"
    and r: "for_enumerate body (Suc k) rest (vs[si := s']) = Inr vs'"
    by (rule for_enumerate_step)
  from Cons.IH [OF r] Cons.prems(2) show ?case by simp
qed

lemma for_enumerate_establishes:
  assumes est: "\<And>sii s s'. body sii s = Inr s' \<Longrightarrow> Q sii s'"
  shows "for_enumerate body k myspots vs = Inr vs' \<Longrightarrow> j < length myspots \<Longrightarrow>
         myspots ! j \<notin> set (drop (Suc j) myspots) \<Longrightarrow>
         myspots ! j < length vs \<and> Q (k + j) (vs' ! (myspots ! j))"
proof (induction myspots arbitrary: k vs j)
  case Nil
  then show ?case by simp
next
  case (Cons si rest)
  from Cons.prems(1) obtain s' where lt: "si < length vs" and b: "body k (vs ! si) = Inr s'"
    and r: "for_enumerate body (Suc k) rest (vs[si := s']) = Inr vs'"
    by (rule for_enumerate_step)
  show ?case
  proof (cases j)
    case 0
    with Cons.prems(3) have nin: "si \<notin> set rest" by simp
    from for_enumerate_untouched [OF r nin] lt have "vs' ! si = s'" by simp
    with est [OF b] lt 0 show ?thesis by simp
  next
    case (Suc j')
    with Cons.prems(2) have j': "j' < length rest" by simp
    from Cons.prems(3) Suc have l': "rest ! j' \<notin> set (drop (Suc j') rest)" by simp
    from Cons.IH [OF r j' l'] Suc show ?thesis by simp
  qed
qed

lemma anisotropy_at_formula:
  "anisotropy_at a (fp, fi, fm) =
     Inr (anisotropy_formula (mycos a fp fi fm) (mycos (np_sub a (Fin (pi / 2))) fp fi fm))"
  by (cases "mycos a fp fi fm"; cases "mycos (np_sub a (Fin (pi / 2))) fp fi fm")
     (auto simp: Let_def)

lemma for_enumerate_error:
  "for_enumerate body k myspots vs = Inl e \<Longrightarrow> e = IndexError \<or> (\<exists>sii s. body sii s = Inl e)"
proof (induction myspots arbitrary: k vs)
  case Nil
  then show ?case by simp
next
  case (Cons si rest)
  then show ?case
    by (auto simp: bindE_def split: if_splits sum.splits)
qed

lemma bindE_Inl: "bindE m f = Inl e \<longleftrightarrow> m = Inl e \<or> (\<exists>v. m = Inr v \<and> f v = Inl e)"
  by (cases m) (auto simp: bindE_def)

lemma reraise_warning_Inr [simp]: "reraise_warning m = Inr v \<longleftrightarrow> m = Inr v"
  by (cases m) (auto simp: reraise_warning_def)

lemma reraise_warning_value [simp]: "reraise_warning (Inr v) = Inr v"
  by (simp add: reraise_warning_def)

lemma find_modulation_Inr:
  assumes "find_modulation_depths_and_phases_selective fit_ex fit_em fit_v fit_vn myspots vs = Inr vs'"
  obtains ex em v vn vs1 vs2 where
    "fit_ex = Inr ex" and "fit_em = Inr em" and "fit_v = Inr v" and "fit_vn = Inr vn"
    and "for_enumerate (\<lambda>sii s. Inr (assign_fits (ex sii) (em sii) s)) 0 myspots vs = Inr vs1"
    and "for_enumerate (\<lambda>sii s. bindE (anisotropy_at (phase_ex s) (v sii))
                             (\<lambda>r. Inr (s\<lparr>anisotropy := r\<rparr>))) 0 myspots vs1 = Inr vs2"
    and "for_enumerate (\<lambda>sii s. bindE (anisotropy_at ex_par_rad (vn sii))
                             (\<lambda>r. Inr (s\<lparr>anisotropy_n := r\<rparr>))) 0 myspots vs2 = Inr vs'"
  using assms unfolding find_modulation_depths_and_phases_selective_def
  by (auto simp: bindE_def split: if_splits sum.splits)

lemma find_modulation_Inl:
  assumes "find_modulation_depths_and_phases_selective fit_ex fit_em fit_v fit_vn myspots vs = Inl e"
  shows "e = IndexError \<or> fit_ex = Inl e \<or> fit_em = Inl e
         \<or> reraise_warning fit_v = Inl e \<or> reraise_warning fit_vn = Inl e"
proof -
  have a: "bindE (anisotropy_at a c) (\<lambda>r. Inr (f r)) \<noteq> Inl e'" for a c e' and f :: "npfloat \<Rightarrow> spot"
    by (cases c) (simp del: anisotropy_at.simps add: anisotropy_at_formula bindE_def)
  have l1: "for_enumerate (\<lambda>sii s. Inr (assign_fits (ex sii) (em sii) s)) 0 myspots vs = Inl e'
            \<Longrightarrow> e' = IndexError" for ex em e'
    by (drule for_enumerate_error) auto
  have l2: "for_enumerate (\<lambda>sii s. bindE (anisotropy_at (phase_ex s) (v sii))
                             (\<lambda>r. Inr (s\<lparr>anisotropy := r\<rparr>))) 0 myspots vs1 = Inl e'
            \<Longrightarrow> e' = IndexError" for v vs1 e'
    using a by (drule_tac for_enumerate_error) auto
  have l3: "for_enumerate (\<lambda>sii s. bindE (anisotropy_at ex_par_rad (vn sii))
                             (\<lambda>r. Inr (s\<lparr>anisotropy_n := r\<rparr>))) 0 myspots vs2 = Inl e'
            \<Longrightarrow> e' = IndexError" for vn vs2 e'
    using a by (drule_tac for_enumerate_error) auto
  from assms show ?thesis
    unfolding find_modulation_depths_and_phases_selective_def
    by (auto simp: bindE_Inl split: if_splits dest: l1 l2 l3)
qed

lemma find_modulation_spot:
  assumes run: "find_modulation_depths_and_phases_selective fit_ex fit_em fit_v fit_vn myspots vs = Inr vs'"
    and j: "sii < length myspots" and l: "myspots ! sii \<notin> set (drop (Suc sii) myspots)"
  obtains ex em v vn where
    "fit_ex = Inr ex" and "fit_em = Inr em" and "fit_v = Inr v" and "fit_vn = Inr vn"
    and "phase_ex (vs' ! (myspots ! sii)) = fst (ex sii)"
    and "LS (vs' ! (myspots ! sii)) = LS_of (fst (ex sii)) (fst (em sii))"
    and "Inr (anisotropy (vs' ! (myspots ! sii))) = anisotropy_at (fst (ex sii)) (v sii)"
    and "Inr (anisotropy_n (vs' ! (myspots ! sii))) = anisotropy_at ex_par_rad (vn sii)"
proof -
  let ?si = "myspots ! sii"
  from run obtain ex em v vn vs1 vs2 where
    f: "fit_ex = Inr ex" "fit_em = Inr em" "fit_v = Inr v" "fit_vn = Inr vn"
    and l1: "for_enumerate (\<lambda>sii s. Inr (assign_fits (ex sii) (em sii) s)) 0 myspots vs = Inr vs1"
    and l2: "for_enumerate (\<lambda>sii s. bindE (anisotropy_at (phase_ex s) (v sii))
                             (\<lambda>r. Inr (s\<lparr>anisotropy := r\<rparr>))) 0 myspots vs1 = Inr vs2"
    and l3: "for_enumerate (\<lambda>sii s. bindE (anisotropy_at ex_par_rad (vn sii))
                             (\<lambda>r. Inr (s\<lparr>anisotropy_n := r\<rparr>))) 0 myspots vs2 = Inr vs'"
    by (rule find_modulation_Inr)
  have e1: "?si < length vs \<and>
      (phase_ex (vs1 ! ?si) = fst (ex (0 + sii))
       \<and> LS (vs1 ! ?si) = LS_of (fst (ex (0 + sii))) (fst (em (0 + sii))))"
  proof (rule for_enumerate_establishes
        [where Q = "\<lambda>k s'. phase_ex s' = fst (ex k) \<and> LS s' = LS_of (fst (ex k)) (fst (em k))",
         OF _ l1 j l])
    fix k s s' assume "Inr (assign_fits (ex k) (em k) s) = Inr s'"
    then show "phase_ex s' = fst (ex k) \<and> LS s' = LS_of (fst (ex k)) (fst (em k))"
      by (cases "ex k"; cases "em k") auto
  qed
  have k1: "length vs1 = length vs" using for_enumerate_keeps [where f = "\<lambda>s. ()", OF _ l1] by simp
  have e2: "?si < length vs1 \<and>
      Inr (anisotropy (vs2 ! ?si)) = anisotropy_at (phase_ex (vs2 ! ?si)) (v (0 + sii))"
    by (rule for_enumerate_establishes
        [where Q = "\<lambda>k s'. Inr (anisotropy s') = anisotropy_at (phase_ex s') (v k)", OF _ l2 j l])
       (auto simp: bindE_def split: sum.splits)
  have k2: "length vs2 = length vs1
      \<and> (\<forall>i < length vs1. (phase_ex (vs2 ! i), LS (vs2 ! i)) = (phase_ex (vs1 ! i), LS (vs1 ! i)))"
    by (rule for_enumerate_keeps [where f = "\<lambda>s. (phase_ex s, LS s)", OF _ l2])
       (auto simp: bindE_def split: sum.splits)
  have e3: "?si < length vs2 \<and>
      Inr (anisotropy_n (vs' ! ?si)) = anisotropy_at ex_par_rad (vn (0 + sii))"
    by (rule for_enumerate_establishes
        [where Q = "\<lambda>k s'. Inr (anisotropy_n s') = anisotropy_at ex_par_rad (vn k)", OF _ l3 j l])
       (auto simp: bindE_def split: sum.splits)
  have k3: "length vs' = length vs2
      \<and> (\<forall>i < length vs2. (phase_ex (vs' ! i), LS (vs' ! i), anisotropy (vs' ! i))
                               = (phase_ex (vs2 ! i), LS (vs2 ! i), anisotropy (vs2 ! i)))"
    by (rule for_enumerate_keeps [where f = "\<lambda>s. (phase_ex s, LS s, anisotropy s)", OF _ l3])
       (auto simp: bindE_def split: sum.splits)
  from e1 k1 have i1: "?si < length vs1" by simp
  from e2 k2 have i2: "?si < length vs2" by simp
  from k2 i1 have a2: "phase_ex (vs2 ! ?si) = phase_ex (vs1 ! ?si)" "LS (vs2 ! ?si) = LS (vs1 ! ?si)"
    by auto
  from k3 i2 have a3: "phase_ex (vs' ! ?si) = phase_ex (vs2 ! ?si)" "LS (vs' ! ?si) = LS (vs2 ! ?si)"
    "anisotropy (vs' ! ?si) = anisotropy (vs2 ! ?si)"
    by auto
  show ?thesis
    using f e1 e2 e3 a2 a3 by (intro that [of ex em v vn]) simp_all
qed

lemma LS_of_range:
  assumes "\<bar>a - b\<bar> \<le> 3 * pi / 2"
  shows "LS_of (Fin a) (Fin b) =
           Fin (if pi / 2 < a - b then a - b - pi else if a - b < - pi / 2 then a - b + pi else a - b)"
    and "in_closed_LS_range (LS_of (Fin a) (Fin b))"
proof -
  have p: "0 < pi" by simp
  from assms have u: "a - b \<le> 3 * pi / 2" and l: "- (3 * pi / 2) \<le> a - b" by arith+
  show "LS_of (Fin a) (Fin b) =
           Fin (if pi / 2 < a - b then a - b - pi else if a - b < - pi / 2 then a - b + pi else a - b)"
    using p by (auto simp: LS_of_def np_gt_def Let_def)
  show "in_closed_LS_range (LS_of (Fin a) (Fin b))"
    using u l p by (auto simp: LS_of_def np_gt_def in_closed_LS_range_def Let_def)
qed

text \<open>
  C4. For every spot processed by \<open>find_modulation_depths_and_phases_selective\<close> (\<open>sii\<close> is
  the last position of the spot in \<open>myspots\<close>, its only one if no index is repeated), the stored
  \<open>anisotropy\<close> and \<open>anisotropy_n\<close> are \<open>(Ipara - Iperp) / (Ipara + 2 Iperp)\<close> of the fitted
  vertical cosine model, with the parallel configuration at the spot's \<open>phase_ex\<close> and at
  angle 0, and NaN when the denominator is exactly zero; the division raises nothing: the
  call ends in an exception only if a fit raised one or a spot index is out of range.
\<close>

theorem anisotropy_stored:
  assumes j: "sii < length myspots" and l: "myspots ! sii \<notin> set (drop (Suc sii) myspots)"
  shows "case find_modulation_depths_and_phases_selective fit_ex fit_em fit_v fit_vn myspots validspots of
           Inl e \<Rightarrow> e = IndexError \<or> fit_ex = Inl e \<or> fit_em = Inl e
                    \<or> reraise_warning fit_v = Inl e \<or> reraise_warning fit_vn = Inl e
         | Inr vs' \<Rightarrow>
             (\<exists>ex v vn. fit_ex = Inr ex \<and> fit_v = Inr v \<and> fit_vn = Inr vn \<and>
                (case (ex sii, v sii, vn sii) of ((ph, I, M), (fp, fi, fm), (np, ni, nm)) \<Rightarrow>
                   anisotropy (vs' ! (myspots ! sii)) =
                     anisotropy_formula (mycos ph fp fi fm) (mycos (np_sub ph (Fin (pi / 2))) fp fi fm)
                 \<and> anisotropy_n (vs' ! (myspots ! sii)) =
                     anisotropy_formula (mycos ex_par_rad np ni nm)
                       (mycos (np_sub ex_par_rad (Fin (pi / 2))) np ni nm)))"
proof (cases "find_modulation_depths_and_phases_selective fit_ex fit_em fit_v fit_vn myspots validspots")
  case (Inl e)
  then show ?thesis using find_modulation_Inl [OF Inl] by simp
next
  case (Inr vs')
  from Inr j l obtain ex em v vn where
    f: "fit_ex = Inr ex" "fit_v = Inr v" "fit_vn = Inr vn"
    and a: "Inr (anisotropy (vs' ! (myspots ! sii))) = anisotropy_at (fst (ex sii)) (v sii)"
    and n: "Inr (anisotropy_n (vs' ! (myspots ! sii))) = anisotropy_at ex_par_rad (vn sii)"
    by (rule find_modulation_spot)
  obtain ph I M fp fi fm np ni nm where
    s: "ex sii = (ph, I, M)" "v sii = (fp, fi, fm)" "vn sii = (np, ni, nm)"
    by (metis prod_cases3)
  from a n s have
    "anisotropy (vs' ! (myspots ! sii)) =
       anisotropy_formula (mycos ph fp fi fm) (mycos (np_sub ph (Fin (pi / 2))) fp fi fm)"
    "anisotropy_n (vs' ! (myspots ! sii)) =
       anisotropy_formula (mycos ex_par_rad np ni nm) (mycos (np_sub ex_par_rad (Fin (pi / 2))) np ni nm)"
    by (simp_all only: anisotropy_at_formula fst_conv sum.inject)
  with Inr f s show ?thesis by simp
qed

theorem anisotropy_stored_witness:
  "(0::nat) < length [0::nat] \<and> [0::nat] ! 0 \<notin> set (drop (Suc 0) [0::nat])
   \<and> find_modulation_depths_and_phases_selective
        (Inr (\<lambda>_. (Fin 0, Fin 1, Fin (1 / 2)))) (Inr (\<lambda>_. (Fin 0, Fin 1, Fin (1 / 2))))
        (Inr (\<lambda>_. (Fin 0, Fin 1, Fin (1 / 2)))) (Inr (\<lambda>_. (Fin 0, Fin 0, Fin 0))) [0] [blank_spot]
      = Inr [blank_spot\<lparr>phase_ex := Fin 0, M_ex := Fin (1 / 2), phase_em := Fin 0, M_em := Fin (1 / 2),
                       LS := Fin 0, anisotropy := Fin (2 / 5), anisotropy_n := NaN\<rparr>]
   \<and> anisotropy_formula (mycos (Fin 0) (Fin 0) (Fin 1) (Fin (1 / 2)))
        (mycos (np_sub (Fin 0) (Fin (pi / 2))) (Fin 0) (Fin 1) (Fin (1 / 2))) = Fin (2 / 5)
   \<and> anisotropy_formula (mycos ex_par_rad (Fin 0) (Fin 0) (Fin 0))
        (mycos (np_sub ex_par_rad (Fin (pi / 2))) (Fin 0) (Fin 0) (Fin 0)) = NaN"
proof -
  have j: "(0::nat) < length [0::nat]" and l: "[0::nat] ! 0 \<notin> set (drop (Suc 0) [0::nat])"
    by simp_all
  have c: "cos (- pi) = -1" by simp
  have m: "mycos (Fin 0) (Fin 0) (Fin 1) (Fin (1 / 2)) = Fin (3 / 2)"
    "mycos (np_sub (Fin 0) (Fin (pi / 2))) (Fin 0) (Fin 1) (Fin (1 / 2)) = Fin (1 / 2)"
    "mycos ex_par_rad (Fin 0) (Fin 0) (Fin 0) = Fin 0"
    "mycos (np_sub ex_par_rad (Fin (pi / 2))) (Fin 0) (Fin 0) (Fin 0) = Fin 0"
    using c by (simp_all add: mycos_def ex_par_rad_def)
  note t = anisotropy_stored [OF j l,
      where fit_ex = "Inr (\<lambda>_. (Fin 0, Fin 1, Fin (1 / 2)))"
        and fit_em = "Inr (\<lambda>_. (Fin 0, Fin 1, Fin (1 / 2)))"
        and fit_v = "Inr (\<lambda>_. (Fin 0, Fin 1, Fin (1 / 2)))"
        and fit_vn = "Inr (\<lambda>_. (Fin 0, Fin 0, Fin 0))" and validspots = "[blank_spot]"]
  have run: "find_modulation_depths_and_phases_selective
        (Inr (\<lambda>_. (Fin 0, Fin 1, Fin (1 / 2)))) (Inr (\<lambda>_. (Fin 0, Fin 1, Fin (1 / 2))))
        (Inr (\<lambda>_. (Fin 0, Fin 1, Fin (1 / 2)))) (Inr (\<lambda>_. (Fin 0, Fin 0, Fin 0))) [0] [blank_spot]
      = Inr [blank_spot\<lparr>phase_ex := Fin 0, M_ex := Fin (1 / 2), phase_em := Fin 0, M_em := Fin (1 / 2),
                       LS := Fin 0, anisotropy := Fin (2 / 5), anisotropy_n := NaN\<rparr>]"
    using t m
    by (simp add: find_modulation_depths_and_phases_selective_def bindE_def anisotropy_at_formula
        LS_of_def np_gt_def Let_def)
  show ?thesis using j l run m by simp
qed

text \<open>
  C7 (amended). For every processed spot (at its last position \<open>sii\<close> in \<open>myspots\<close>) whose fitted
  phases differ by at most \<open>3\<pi>/2\<close> (as any two phases from one half turn do), the stored
  line shift is \<open>phase_ex - phase_em\<close> with
  \<open>\<pi>\<close> subtracted if it exceeds \<open>\<pi>/2\<close> and added if it is below \<open>-\<pi>/2\<close>, and it lies in the
  closed interval \<open>[-\<pi>/2, \<pi>/2]\<close>: a difference of exactly \<open>-\<pi>/2\<close> is stored as it is.
\<close>

theorem LS_stored:
  assumes run: "find_modulation_depths_and_phases_selective fit_ex fit_em fit_v fit_vn myspots validspots
                  = Inr validspots'"
    and j: "sii < length myspots" and l: "myspots ! sii \<notin> set (drop (Suc sii) myspots)"
    and ex: "fit_ex = Inr ex" and em: "fit_em = Inr em"
    and a: "fst (ex sii) = Fin a" and b: "fst (em sii) = Fin b"
    and r: "\<bar>a - b\<bar> \<le> 3 * pi / 2"
  shows "LS (validspots' ! (myspots ! sii)) =
           Fin (if pi / 2 < a - b then a - b - pi else if a - b < - pi / 2 then a - b + pi else a - b)
         \<and> in_closed_LS_range (LS (validspots' ! (myspots ! sii)))"
proof -
  from run j l obtain ex' em' where
    "fit_ex = Inr ex'" "fit_em = Inr em'"
    "LS (validspots' ! (myspots ! sii)) = LS_of (fst (ex' sii)) (fst (em' sii))"
    by (rule find_modulation_spot)
  with ex em a b have "LS (validspots' ! (myspots ! sii)) = LS_of (Fin a) (Fin b)" by simp
  with LS_of_range [OF r] show ?thesis by simp
qed

theorem LS_stored_witness:
  "find_modulation_depths_and_phases_selective
        (Inr (\<lambda>_. (Fin 1, Fin 1, Fin (1 / 2)))) (Inr (\<lambda>_. (Fin (- 1), Fin 1, Fin (1 / 2))))
        (Inr (\<lambda>_. (Fin 0, Fin 1, Fin 0))) (Inr (\<lambda>_. (Fin 0, Fin 1, Fin 0))) [0] [blank_spot]
      = Inr [blank_spot\<lparr>phase_ex := Fin 1, M_ex := Fin (1 / 2), phase_em := Fin (- 1),
                       M_em := Fin (1 / 2), LS := Fin (2 - pi), anisotropy := Fin 0,
                       anisotropy_n := Fin 0\<rparr>]
   \<and> (0::nat) < length [0::nat] \<and> [0::nat] ! 0 \<notin> set (drop (Suc 0) [0::nat])
   \<and> \<bar>1 - (- 1)\<bar> \<le> 3 * pi / 2
   \<and> in_closed_LS_range (Fin (2 - pi))"
proof -
  have j: "(0::nat) < length [0::nat]" and l: "[0::nat] ! 0 \<notin> set (drop (Suc 0) [0::nat])"
    by simp_all
  have p: "2 \<le> pi" "pi < 4" using pi_ge_two pi_less_4 by simp_all
  have r: "\<bar>1 - (- 1)\<bar> \<le> 3 * pi / 2" using p by simp
  have run: "find_modulation_depths_and_phases_selective
        (Inr (\<lambda>_. (Fin 1, Fin 1, Fin (1 / 2)))) (Inr (\<lambda>_. (Fin (- 1), Fin 1, Fin (1 / 2))))
        (Inr (\<lambda>_. (Fin 0, Fin 1, Fin 0))) (Inr (\<lambda>_. (Fin 0, Fin 1, Fin 0))) [0] [blank_spot]
      = Inr [blank_spot\<lparr>phase_ex := Fin 1, M_ex := Fin (1 / 2), phase_em := Fin (- 1),
                       M_em := Fin (1 / 2), LS := Fin (2 - pi), anisotropy := Fin 0,
                       anisotropy_n := Fin 0\<rparr>]"
    using p
    by (simp add: find_modulation_depths_and_phases_selective_def bindE_def anisotropy_at_formula
        mycos_def ex_par_rad_def LS_of_def np_gt_def Let_def)
  from LS_stored [OF run j l refl refl _ _ r, of ] run j l r p
  show ?thesis by (simp add: in_closed_LS_range_def)
qed

text \<open>
  C7 as stated fails at the lower end of the interval: with \<open>phase_ex = 0\<close> and
  \<open>phase_em = \<pi>/2\<close> the difference \<open>-\<pi>/2\<close> is not below \<open>-\<pi>/2\<close>, so it is stored unchanged,
  outside \<open>(-\<pi>/2, \<pi>/2]\<close>.
\<close>

theorem LS_lower_end_counterexample:
  "find_modulation_depths_and_phases_selective
        (Inr (\<lambda>_. (Fin 0, Fin 1, Fin (1 / 2)))) (Inr (\<lambda>_. (Fin (pi / 2), Fin 1, Fin (1 / 2))))
        (Inr (\<lambda>_. (Fin 0, Fin 1, Fin 0))) (Inr (\<lambda>_. (Fin 0, Fin 1, Fin 0))) [0] [blank_spot]
      = Inr [blank_spot\<lparr>phase_ex := Fin 0, M_ex := Fin (1 / 2), phase_em := Fin (pi / 2),
                       M_em := Fin (1 / 2), LS := Fin (- pi / 2), anisotropy := Fin 0,
                       anisotropy_n := Fin 0\<rparr>]
   \<and> \<not> in_half_open_LS_range (Fin (- pi / 2))"
  by (simp add: find_modulation_depths_and_phases_selective_def bindE_def anisotropy_at_formula
        mycos_def ex_par_rad_def LS_of_def np_gt_def Let_def in_half_open_LS_range_def)




lemma are_spots_valid_loop_length:
  "are_spots_valid_loop t vfr b k spots = Inr (spots', vs, idx) \<Longrightarrow> length spots' = length spots"
proof (induction spots arbitrary: b k spots' vs idx)
  case Nil
  then show ?case by simp
next
  case (Cons s rest)
  then show ?case
    by (auto simp: bindE_def Let_def split: sum.splits prod.splits if_splits)
qed







lemma np_round2_int: "np_round2 (of_int n) = of_int n"
proof -
  have "of_int n * (100::real) = of_int (n * 100)" by simp
  then have "rint (of_int n * 100) = n * 100"
    unfolding rint_def Let_def by (simp only: floor_of_int) simp
  then show ?thesis by (simp add: np_round2_def)
qed

lemma np_round2_0 [simp]: "np_round2 0 = 0"
  using np_round2_int [of 0] by simp

lemma np_round2_1 [simp]: "np_round2 1 = 1"
  using np_round2_int [of 1] by simp

text \<open>
  C3 (amended). With \<open>fpp\<close> the product of the numbers of unique rounded excitation and
  emission angles and \<open>Nframes = k * fpp + r\<close>, \<open>r < fpp\<close>: for \<open>r = 0\<close> \<open>find_portraits\<close> yields
  exactly \<open>k\<close> portraits, with the offsets \<open>0, fpp, \<dots>, k * fpp\<close>; for \<open>r > 0\<close> it does not drop
  the remainder but fails its assertion that the frame count is a multiple of \<open>fpp\<close>.
\<close>

theorem find_portraits_multiple_or_assert:
  assumes fpp: "fpp = unique_size (map np_round2 exangles) * unique_size (map np_round2 emangles)"
    and n: "length exangles = k * fpp + r" and r: "r < fpp"
  shows "find_portraits exangles emangles 0 =
           (if r = 0 then Inr (int k, map (\<lambda>p. int (p * fpp)) [0..<Suc k]) else Inl AssertionError)"
proof -
  from r have pos: "0 < fpp" by simp
  have dv: "length exangles div fpp = k" and md: "length exangles mod fpp = r"
    using n r by simp_all
  show ?thesis
  proof (cases "r = 0")
    case False
    with pos dv md fpp show ?thesis
      by (simp add: find_portraits_def Let_def)
  next
    case True
    have "exangles \<noteq> []" using pos fpp by (auto simp: unique_size_def)
    with n True have k: "0 < k" by (cases k) auto
    have le: "int p * int fpp \<le> int (length exangles)" if "p \<le> k" for p
    proof -
      from that have "p * fpp \<le> k * fpp" by simp
      then have "int (p * fpp) \<le> int (k * fpp)" by (simp only: of_nat_le_iff)
      with n True show ?thesis by simp
    qed
    have all: "\<forall>x \<in> set (map (\<lambda>p. int p * int fpp + 0) [0..<k + 1]). \<not> x > int (length exangles)"
      by (auto simp: not_less less_Suc_eq_le intro: le)
    have tw: "takeWhile (\<lambda>ind. \<not> ind > int (length exangles))
                (map (\<lambda>p. int p * int fpp + 0) [0..<k + 1])
              = map (\<lambda>p. int p * int fpp + 0) [0..<k + 1]"
      using all by (simp only: takeWhile_eq_all_conv)
    have fp: "find_portraits exangles emangles 0 =
        (if fpp = 0 then Inl ZeroDivisionError
         else if length exangles mod fpp \<noteq> 0 then Inl AssertionError
         else if \<not> int (length (takeWhile (\<lambda>ind. \<not> ind > int (length exangles))
                      (map (\<lambda>p. int p * int fpp + 0) [0..<length exangles div fpp + 1]))) - 1 > 0
              then Inl AssertionError
              else Inr (int (length (takeWhile (\<lambda>ind. \<not> ind > int (length exangles))
                      (map (\<lambda>p. int p * int fpp + 0) [0..<length exangles div fpp + 1]))) - 1,
                    takeWhile (\<lambda>ind. \<not> ind > int (length exangles))
                      (map (\<lambda>p. int p * int fpp + 0) [0..<length exangles div fpp + 1])))"
      by (simp only: find_portraits_def Let_def fpp [symmetric])
    have len: "int (length (map (\<lambda>p. int p * int fpp + 0) [0..<k + 1])) - 1 = int k" by simp
    have "find_portraits exangles emangles 0 =
            Inr (int k, map (\<lambda>p. int p * int fpp + 0) [0..<k + 1])"
      unfolding fp dv md tw len using pos True k by simp
    with True show ?thesis by simp
  qed
qed

theorem find_portraits_multiple_or_assert_witness:
  "(4::nat) = unique_size (map np_round2 [0, 1, 0, 1]) * unique_size (map np_round2 [0, 0, 1, 1])
   \<and> length [0, 1, 0, 1 :: real] = 1 * 4 + 0 \<and> (0::nat) < 4
   \<and> find_portraits [0, 1, 0, 1] [0, 0, 1, 1] 0 = Inr (1, [0, 4])"
proof -
  have fpp: "(4::nat) = unique_size (map np_round2 [0, 1, 0, 1]) * unique_size (map np_round2 [0, 0, 1, 1])"
    by (simp add: unique_size_def)
  have n: "length [0, 1, 0, 1 :: real] = 1 * 4 + 0" by simp
  have r: "(0::nat) < 4" by simp
  have "find_portraits [0, 1, 0, 1] [0, 0, 1, 1] 0 = Inr (1, [0, 4])"
    using find_portraits_multiple_or_assert [OF fpp n r] by simp
  with fpp n r show ?thesis by (simp only: simp_thms)
qed

text \<open>
  C3 as stated fails for a remainder: five frames of a schedule with two excitation and two
  emission angles are one portrait and one frame more, and \<open>find_portraits\<close> raises.
\<close>

theorem find_portraits_remainder_counterexample:
  "unique_size (map np_round2 [0, 1, 0, 1, 0]) * unique_size (map np_round2 [0, 0, 1, 1, 0]) = 4
   \<and> length [0, 1, 0, 1, 0 :: real] = 1 * 4 + 1
   \<and> find_portraits [0, 1, 0, 1, 0] [0, 0, 1, 1, 0] 0 = Inl AssertionError"
  by (simp add: find_portraits_def unique_size_def Let_def)


text \<open>
  \<open>startstop\<close> does not use \<open>fpp\<close>: it counts runs of the emission angle. Eleven frames of the
  same schedule, two portraits and three frames more, end in a third, partial run pair and
  are counted as three portraits.
\<close>

lemma startstop_counts_partial_portrait:
  "unique_size (map np_round2 [0, 1, 0, 1, 0, 1, 0, 1, 0, 1, 0]) *
     unique_size (map np_round2 [0, 0, 1, 1, 0, 0, 1, 1, 0, 0, 1]) = 4
   \<and> length [0, 0, 1, 1, 0, 0, 1, 1, 0, 0, 1 :: real] = 2 * 4 + 3
   \<and> startstop [0, 0, 1, 1, 0, 0, 1, 1, 0, 0, 1] = Inr (3, [(0, 3), (4, 7), (8, 10)])"
  apply (intro conjI)
    apply (simp add: unique_size_def)
   apply simp
  apply code_simp
  done

lemma length_np_unique: "length (np_unique a) = unique_size a"
  by (simp add: np_unique_def unique_size_def)

lemma set_np_unique: "set (np_unique a) = set a"
  by (simp add: np_unique_def)

lemma matches_grid_iff:
  "matches_grid a grid \<longleftrightarrow> (\<exists>g. Fin g \<in> set grid \<and> \<bar>a - g\<bar> < 10 * float_eps)"
proof
  assume "matches_grid a grid"
  then obtain v where v: "v \<in> set grid" and c: "np_lt (np_abs (np_sub (Fin a) v)) (Fin (10 * float_eps))"
    by (auto simp: matches_grid_def list_ex_iff)
  from c obtain g where "v = Fin g" by (cases v) auto
  with v c show "\<exists>g. Fin g \<in> set grid \<and> \<bar>a - g\<bar> < 10 * float_eps" by auto
next
  assume "\<exists>g. Fin g \<in> set grid \<and> \<bar>a - g\<bar> < 10 * float_eps"
  then obtain g where "Fin g \<in> set grid" and "\<bar>a - g\<bar> < 10 * float_eps" by blast
  then have "\<exists>v \<in> set grid. np_lt (np_abs (np_sub (Fin a) v)) (Fin (10 * float_eps))"
    by (intro bexI [of _ "Fin g"]) simp_all
  then show "matches_grid a grid" by (simp add: matches_grid_def list_ex_iff)
qed

text \<open>
  C5. The constructor succeeds exactly if every observed excitation angle has an entry of
  the excitation grid, and every observed emission angle an entry of the emission grid,
  closer than ten epsilons; otherwise it fails its assertion.
\<close>

theorem Movie_init_grids_validated:
  "Movie_init_grids exangles emangles off =
     (if (\<forall>a \<in> set exangles. \<exists>g. Fin g \<in> set (excitation_angles_grid (unique_size exangles) off)
                                \<and> \<bar>a - g\<bar> < 10 * float_eps)
         \<and> (\<forall>a \<in> set emangles. \<exists>g. Fin g \<in> set (emission_angles_grid (unique_size emangles))
                                \<and> \<bar>a - g\<bar> < 10 * float_eps)
      then Inr (excitation_angles_grid (unique_size exangles) off,
                emission_angles_grid (unique_size emangles))
      else Inl AssertionError)"
  by (auto simp: Movie_init_grids_def Let_def list_all_iff length_np_unique set_np_unique
      matches_grid_iff)






lemma excitation_grid_entries:
  "excitation_angles_grid n off =
     map (\<lambda>i. np_mod_pi (snap_to_pi (np_add (Fin (real i * (pi / real n))) (phase_offset_in_rad off))))
       [0..<n]"
  by (simp add: excitation_angles_grid_def linspace_pi_def Let_def comp_def)




theorem Movie_init_grids_validated_witness:
  "Movie_init_grids [0, 0] [0, pi / 2] (Fin 0) = Inr ([Fin 0], [Fin 0, Fin (pi / 2)])"
proof -
  have e: "0 < 10 * float_eps" by (simp add: float_eps_def)
  have gex: "excitation_angles_grid (unique_size [0, 0]) (Fin 0) = [Fin 0]"
    using e by (simp add: excitation_grid_entries unique_size_def snap_to_pi_def)
  have gem: "emission_angles_grid (unique_size [0, pi / 2]) = [Fin 0, Fin (pi / 2)]"
    by (simp add: emission_angles_grid_def linspace_pi_def unique_size_def upt_rec)
  have c: "(\<forall>a \<in> set [0, 0]. \<exists>g. Fin g \<in> set (excitation_angles_grid (unique_size [0, 0]) (Fin 0))
                                \<and> \<bar>a - g\<bar> < 10 * float_eps)
         \<and> (\<forall>a \<in> set [0, pi / 2]. \<exists>g. Fin g \<in> set (emission_angles_grid (unique_size [0, pi / 2]))
                                \<and> \<bar>a - g\<bar> < 10 * float_eps)"
    unfolding gex gem
  proof (intro conjI ballI)
    fix a :: real assume "a \<in> set [0, 0]"
    then have "Fin a \<in> set [Fin 0]" by auto
    then show "\<exists>g. Fin g \<in> set [Fin 0] \<and> \<bar>a - g\<bar> < 10 * float_eps"
      using e by (intro exI [of _ a]) simp
  next
    fix a :: real assume "a \<in> set [0, pi / 2]"
    then have "Fin a \<in> set [Fin 0, Fin (pi / 2)]" by auto
    then show "\<exists>g. Fin g \<in> set [Fin 0, Fin (pi / 2)] \<and> \<bar>a - g\<bar> < 10 * float_eps"
      using e by (intro exI [of _ a]) simp
  qed
  show ?thesis
    using Movie_init_grids_validated [of "[0, 0]" "[0, pi / 2]" "Fin 0"] c
    unfolding gex gem by simp
qed




end
